theory Spec2Isabelle
  imports Complex_Main
begin

section \<open>FormulaRC BOX: the input transformation pipeline\<close>

text \<open>
  The sketch relays the channels of an RC receiver to a USB joystick. The repository
  holds two variants of it: \<^verbatim>\<open>src/FormulaRC_BOX.ino\<close> (the first one) and
  \<^verbatim>\<open>src/unnamed/part_000\<close> (the later one, with the blend factor and the keyboard mode).
  The embedding follows \<^verbatim>\<open>part_000\<close>; \<^verbatim>\<open>logit\<close>, \<^verbatim>\<open>applySteeringExponent\<close>,
  \<^verbatim>\<open>processSteering\<close> and \<^verbatim>\<open>adjustSteering\<close> have the same text in both variants.

  Conventions of the embedding:
  \<^item> the global variables of the sketch are the fields of the record \<open>state\<close>, and every
    function that writes a global takes the state and returns the new one;
  \<^item> the calls to \<^verbatim>\<open>Joystick\<close> and \<^verbatim>\<open>Keyboard\<close> are appended, in order, to the field
    \<open>sink\<close>;
  \<^item> \<^verbatim>\<open>float\<close> is \<open>real\<close>: the arithmetic is exact, and a result that is not a finite
    number in C (the pole of \<^verbatim>\<open>pow\<close>) is \<open>None\<close>;
  \<^item> \<^verbatim>\<open>int\<close> is \<open>int\<close>: the channel reader delivers values of the declared ranges
    (at most 1000 in magnitude), for which no 16-bit operation of the sketch overflows;
  \<^item> an access to an array outside its bounds is undefined in C: it is the error
    \<open>IndexOutOfBounds\<close>, and execution stops there;
  \<^item> the serial log (\<^verbatim>\<open>write\<close>, \<^verbatim>\<open>Serial.print\<close>, \<^verbatim>\<open>printAdjustedLogitCurve\<close>) and the
    two LEDs write to neither sink and to no variable that the pipeline reads; they are
    left out.
\<close>

subsection \<open>Constants\<close>

definition S_DEADZONE :: int where "S_DEADZONE = 25"
definition T_DEADZONE :: int where "T_DEADZONE = 25"
definition Z_DEADZONE :: int where "Z_DEADZONE = 50"

definition ACCELERATOR_MIN :: int where "ACCELERATOR_MIN = 0"
definition ACCELERATOR_MAX :: int where "ACCELERATOR_MAX = 1000"
definition BRAKE_MIN :: int where "BRAKE_MIN = 0"
definition BRAKE_MAX :: int where "BRAKE_MAX = 1000"
definition AUX_MIN :: int where "AUX_MIN = 0"
definition AUX_MAX :: int where "AUX_MAX = 1000"

text \<open>The two adjustment factors are globals that no statement of the sketch assigns.\<close>

definition steeringExponent :: real where "steeringExponent = 164 / 100"
definition curveAdjustment :: real where "curveAdjustment = 1"

text \<open>The size of \<^verbatim>\<open>bool buttonState[] = {false, false, false}\<close>.\<close>

definition buttonState_size :: nat where "buttonState_size = 3"

subsection \<open>Output sinks, errors and the state\<close>

datatype key = KEY_DOWN_ARROW | KEY_SPACE | KEY_LEFT_SHIFT

datatype event =
    Joystick_setSteering int
  | Joystick_setThrottle int
  | Joystick_setAccelerator int
  | Joystick_setBrake int
  | Joystick_pressButton nat
  | Joystick_releaseButton nat
  | Joystick_sendState
  | Keyboard_press key
  | Keyboard_release key

datatype error = IndexOutOfBounds nat | NotFinite

record state =
  steeringInput :: int
  lastSteeringInput :: int
  throttleInput :: int
  lastThrottleInput :: int
  auxInput :: "nat \<Rightarrow> int"
  buttonState :: "nat \<Rightarrow> bool"
  lastSteeringOutput :: int
  lastAcceleratorOutput :: int
  lastBrakeOutput :: int
  lastAux3Output :: int
  steeringExponential :: bool
  acceleratorCurve :: bool
  brakeCurve :: bool
  sink :: "event list"

text \<open>The initial values of the globals of \<^verbatim>\<open>part_000\<close>.\<close>

definition initial :: state where
  "initial = \<lparr> steeringInput = 0, lastSteeringInput = 0, throttleInput = 0,
     lastThrottleInput = 0, auxInput = (\<lambda>_. 0), buttonState = (\<lambda>_. False),
     lastSteeringOutput = 0, lastAcceleratorOutput = 0, lastBrakeOutput = 0,
     lastAux3Output = 0, steeringExponential = True, acceleratorCurve = True,
     brakeCurve = True, sink = [] \<rparr>"

definition emit :: "event \<Rightarrow> state \<Rightarrow> state" where
  "emit e s = s\<lparr>sink := sink s @ [e]\<rparr>"

subsection \<open>Curve library\<close>

text \<open>
  \<^verbatim>\<open>pow\<close> of the C library on reals: \<^verbatim>\<open>pow(x, 0)\<close> is 1 for every \<^verbatim>\<open>x\<close>, \<^verbatim>\<open>pow(0, y)\<close>
  is 0 for positive \<^verbatim>\<open>y\<close> and infinite for negative \<^verbatim>\<open>y\<close>; a negative base has a result
  for an integral exponent only.
\<close>

definition pow :: "real \<Rightarrow> real \<Rightarrow> real option" where
  "pow x y =
     (if y = 0 then Some 1
      else if x = 0 then (if 0 < y then Some 0 else None)
      else if 0 < x then Some (x powr y)
      else if of_int \<lfloor>y\<rfloor> = y
        then Some ((if even \<lfloor>y\<rfloor> then 1 else - 1) * (\<bar>x\<bar> powr y))
      else None)"

text \<open>The conversion of a \<^verbatim>\<open>float\<close> to \<^verbatim>\<open>int\<close> truncates towards zero.\<close>

definition float_to_int :: "real \<Rightarrow> int" where
  "float_to_int x = (if 0 \<le> x then \<lfloor>x\<rfloor> else \<lceil>x\<rceil>)"

definition mapFloat :: "real \<Rightarrow> real \<Rightarrow> real \<Rightarrow> real \<Rightarrow> real \<Rightarrow> real" where
  "mapFloat x in_min in_max out_min out_max =
     (x - in_min) * (out_max - out_min) / (in_max - in_min) + out_min"

text \<open>
  \<^verbatim>\<open>logit\<close>: the first statement overwrites \<^verbatim>\<open>x\<close> by its clamped value
  (\<open>logit_clamp\<close>), the second returns the logarithm of \<^verbatim>\<open>x / (1 - x)\<close> (\<open>logit_odds\<close>).
\<close>

definition logit_clamp :: "real \<Rightarrow> real" where
  "logit_clamp x = max 0.0001 (min 0.9999 x)"

definition logit_odds :: "real \<Rightarrow> real" where
  "logit_odds x = logit_clamp x / (1 - logit_clamp x)"

definition logit :: "real \<Rightarrow> real" where
  "logit x = ln (logit_odds x)"

definition adjustedLogitCurve :: "real \<Rightarrow> real \<Rightarrow> real \<Rightarrow> real" where
  "adjustedLogitCurve input adjustment blendFactor =
     (let normalizedInput = input / 1000;
          normalizedInput = max 0.0001 (min 0.9999 normalizedInput);
          logitOutput = logit normalizedInput;
          adjustedLogitOutput = logitOutput * adjustment;
          adjustedOutput = (adjustedLogitOutput + 6) / 12 * 1000;
          blendedOutput = (blendFactor * adjustedOutput) + ((1 - blendFactor) * input);
          blendedOutput = max 0 (min 1000 blendedOutput)
      in blendedOutput)"

text \<open>
  \<^verbatim>\<open>applySteeringExponent\<close>: \<open>steeringShape\<close> is the expression
  \<^verbatim>\<open>(normalizedInput < 0 ? -1 : 1) * pow(abs(normalizedInput), exponent)\<close> on the normalized
  input.
\<close>

definition steeringShape :: "real \<Rightarrow> real \<Rightarrow> real option" where
  "steeringShape normalizedInput exponent =
     map_option (\<lambda>p. (if normalizedInput < 0 then - 1 else 1) * p)
       (pow \<bar>normalizedInput\<bar> exponent)"

definition applySteeringExponent :: "int \<Rightarrow> real \<Rightarrow> real option" where
  "applySteeringExponent rawSteeringValue exponent =
     (let normalizedInput = real_of_int rawSteeringValue / 1000
      in map_option (\<lambda>adjustedValue. adjustedValue * 1000)
           (steeringShape normalizedInput exponent))"

subsection \<open>Steering\<close>

definition setSteering :: "int \<Rightarrow> state \<Rightarrow> state" where
  "setSteering v s = emit (Joystick_setSteering v) s"

text \<open>
  \<^verbatim>\<open>adjustSteering\<close> passes the \<^verbatim>\<open>float\<close> of the curve to the \<^verbatim>\<open>int\<close> parameter of
  \<^verbatim>\<open>setSteering\<close>. The conversion of a value that is not finite is undefined: it is the
  error \<open>NotFinite\<close>.
\<close>

definition adjustSteering :: "int \<Rightarrow> state \<Rightarrow> error + state" where
  "adjustSteering v s =
     (if lastSteeringOutput s = v then Inr s
      else let s1 = s\<lparr>lastSteeringOutput := v\<rparr> in
        if steeringExponential s1
        then (case applySteeringExponent v steeringExponent of
                None \<Rightarrow> Inl NotFinite
              | Some y \<Rightarrow> Inr (setSteering (float_to_int y) s1))
        else Inr (setSteering v s1))"

text \<open>The argument \<open>reading\<close> is the value of \<^verbatim>\<open>steering.map(-1000, 1000)\<close>.\<close>

definition processSteering :: "int \<Rightarrow> state \<Rightarrow> error + state" where
  "processSteering reading s =
     (let s1 = s\<lparr>steeringInput := reading * - 1\<rparr> in
      if lastSteeringInput s1 = steeringInput s1 then Inr s1
      else let s2 = s1\<lparr>lastSteeringInput := steeringInput s1\<rparr> in
        if \<bar>steeringInput s2\<bar> > S_DEADZONE
        then adjustSteering (steeringInput s2) s2
        else adjustSteering 0 s2)"

subsection \<open>Throttle and brake\<close>

definition setAccelerator :: "int \<Rightarrow> real \<Rightarrow> state \<Rightarrow> state" where
  "setAccelerator v adjustment s =
     (let v = (if v > ACCELERATOR_MAX then ACCELERATOR_MAX
               else if v < ACCELERATOR_MIN then ACCELERATOR_MIN else v)
      in if auxInput s 3 > AUX_MIN
         then emit (Joystick_setAccelerator 0) (emit (Joystick_setThrottle v) s)
         else emit (Joystick_setAccelerator v) (emit (Joystick_setThrottle 0) s))"

definition adjustAccelerator :: "int \<Rightarrow> state \<Rightarrow> state" where
  "adjustAccelerator v s =
     (if lastAcceleratorOutput s = v then s
      else let s1 = s\<lparr>lastAcceleratorOutput := v\<rparr> in
        if acceleratorCurve s1 \<and> auxInput s1 3 > AUX_MIN
        then let aux3Adjustment = mapFloat (real_of_int (auxInput s1 3)) 0 1000 (- 0.1) 1.5;
                 adjustedInput = adjustedLogitCurve (real_of_int v) curveAdjustment aux3Adjustment;
                 outputValue = float_to_int (adjustedInput + 0.5)
             in setAccelerator outputValue aux3Adjustment s1
        else setAccelerator v 0 s1)"

definition setBrake :: "int \<Rightarrow> real \<Rightarrow> state \<Rightarrow> state" where
  "setBrake v adjustment s =
     (let v = (if v > BRAKE_MAX then BRAKE_MAX
               else if v < BRAKE_MIN then BRAKE_MIN else v)
      in emit (Joystick_setBrake v) s)"

definition adjustBrake :: "int \<Rightarrow> state \<Rightarrow> state" where
  "adjustBrake v s =
     (if lastBrakeOutput s = v then s
      else let s1 = s\<lparr>lastBrakeOutput := v\<rparr> in
        if brakeCurve s1 \<and> auxInput s1 3 > AUX_MIN
        then let aux3Adjustment = mapFloat (real_of_int (auxInput s1 3)) 0 1000 (- 0.1) 1.5;
                 adjustedInput = adjustedLogitCurve (real_of_int v) curveAdjustment aux3Adjustment;
                 outputValue = float_to_int (adjustedInput + 0.5)
             in setBrake outputValue aux3Adjustment s1
        else setBrake v 0 s1)"

text \<open>The argument \<open>reading\<close> is the value of \<^verbatim>\<open>throttle.map(THROTTLE_MIN, THROTTLE_MAX)\<close>.\<close>

definition processThrottle :: "int \<Rightarrow> state \<Rightarrow> state" where
  "processThrottle reading s =
     (let s1 = s\<lparr>throttleInput := reading\<rparr> in
      if lastThrottleInput s1 = throttleInput s1 then s1
      else let s2 = s1\<lparr>lastThrottleInput := throttleInput s1\<rparr> in
        if \<bar>throttleInput s2\<bar> > T_DEADZONE
        then (if throttleInput s2 > T_DEADZONE
              then adjustBrake 0 (adjustAccelerator \<bar>throttleInput s2\<bar> s2)
              else if throttleInput s2 < T_DEADZONE * - 1
              then adjustBrake \<bar>throttleInput s2\<bar> (adjustAccelerator 0 s2)
              else adjustBrake 0 (adjustAccelerator 0 s2))
        else adjustBrake 0 (adjustAccelerator 0 s2))"

subsection \<open>Buttons and the auxiliary channels\<close>

definition pressButton :: "nat \<Rightarrow> state \<Rightarrow> error + state" where
  "pressButton button s =
     (if \<not> button < buttonState_size then Inl (IndexOutOfBounds button)
      else if buttonState s button then Inr s
      else let s1 = s\<lparr>buttonState := (buttonState s)(button := True)\<rparr> in
        if auxInput s1 3 > AUX_MIN then Inr (emit (Joystick_pressButton button) s1)
        else if button = 0 then Inr (emit (Keyboard_press KEY_DOWN_ARROW) s1)
        else if button = 1 then Inr (emit (Keyboard_press KEY_SPACE) s1)
        else if button = 2 then Inr (emit (Keyboard_press KEY_LEFT_SHIFT) s1)
        else Inr s1)"

definition releaseButton :: "nat \<Rightarrow> state \<Rightarrow> error + state" where
  "releaseButton button s =
     (if \<not> button < buttonState_size then Inl (IndexOutOfBounds button)
      else if \<not> buttonState s button then Inr s
      else let s1 = s\<lparr>buttonState := (buttonState s)(button := False)\<rparr> in
        if auxInput s1 3 > AUX_MIN then Inr (emit (Joystick_releaseButton button) s1)
        else if button = 0 then Inr (emit (Keyboard_release KEY_DOWN_ARROW) s1)
        else if button = 1 then Inr (emit (Keyboard_release KEY_SPACE) s1)
        else if button = 2 then Inr (emit (Keyboard_release KEY_LEFT_SHIFT) s1)
        else Inr s1)"

definition setAux3 :: "int \<Rightarrow> state \<Rightarrow> state" where
  "setAux3 v s =
     (if \<bar>lastAux3Output s - v\<bar> < Z_DEADZONE then s
      else s\<lparr>lastAux3Output := v\<rparr>)"

text \<open>The body of the loop of \<^verbatim>\<open>processAuxChannels\<close>, for the index \<open>i\<close>.\<close>

definition auxBody :: "nat \<Rightarrow> state \<Rightarrow> error + state" where
  "auxBody i s =
     (if auxInput s i > AUX_MIN then releaseButton i s else pressButton i s)"

text \<open>The loop \<^verbatim>\<open>for (int i = 0; i < 4; i++)\<close>, from the index \<open>i\<close> on.\<close>

function auxLoop :: "nat \<Rightarrow> state \<Rightarrow> error + state" where
  "auxLoop i s =
     (if i < 4
      then (case auxBody i s of Inl e \<Rightarrow> Inl e | Inr s' \<Rightarrow> auxLoop (Suc i) s')
      else Inr s)"
  by pat_completeness auto
termination
  by (relation "measure (\<lambda>(i, s). 4 - i)") auto

declare auxLoop.simps [simp del]

text \<open>The arguments are the values of \<^verbatim>\<open>aux0.map(AUX_MIN, AUX_MAX)\<close> to \<^verbatim>\<open>aux3.map(...)\<close>.\<close>

definition processAuxChannels :: "int \<Rightarrow> int \<Rightarrow> int \<Rightarrow> int \<Rightarrow> state \<Rightarrow> error + state" where
  "processAuxChannels a0 a1 a2 a3 s =
     (let s1 = s\<lparr>auxInput := (auxInput s)(0 := a0, 1 := a1, 2 := a2, 3 := a3)\<rparr> in
      case auxLoop 0 s1 of
        Inl e \<Rightarrow> Inl e
      | Inr s2 \<Rightarrow> Inr (setAux3 (auxInput s2 3) s2))"

subsection \<open>The cycle\<close>

text \<open>
  The readings that the channel reader delivers in one cycle, and \<^verbatim>\<open>loop\<close>. In
  \<^verbatim>\<open>part_000\<close> the flag \<^verbatim>\<open>dipSwitchEnabled\<close> is false and no statement assigns it, so that
  \<^verbatim>\<open>loop\<close> does not call \<^verbatim>\<open>readDipSwitches\<close>.
\<close>

record readings =
  steering_reading :: int
  throttle_reading :: int
  aux0_reading :: int
  aux1_reading :: int
  aux2_reading :: int
  aux3_reading :: int

definition loop :: "readings \<Rightarrow> state \<Rightarrow> error + state" where
  "loop rd s =
     (case processSteering (steering_reading rd) s of
        Inl e \<Rightarrow> Inl e
      | Inr s1 \<Rightarrow>
          (case processAuxChannels (aux0_reading rd) (aux1_reading rd) (aux2_reading rd)
                  (aux3_reading rd) (processThrottle (throttle_reading rd) s1) of
             Inl e \<Rightarrow> Inl e
           | Inr s2 \<Rightarrow> Inr (emit Joystick_sendState s2)))"




section \<open>Properties of the curve library\<close>

subsection \<open>The blend of the logit curve\<close>



text \<open>The logit of one half is 0, so 500 is a fixed point of the curve for every blend.\<close>

lemma logit_half: "logit (1 / 2) = 0"
  by (simp add: logit_def logit_odds_def logit_clamp_def)

lemma adjustedLogitCurve_500: "adjustedLogitCurve 500 a b = 500"
  by (simp add: adjustedLogitCurve_def Let_def logit_half)

lemma mapFloat_375: "mapFloat 375 0 1000 (- 0.1) 1.5 = 0.5"
  by (simp add: mapFloat_def)

lemma float_to_int_500: "float_to_int (1001 / 2) = 500"
  by (simp add: float_to_int_def)

lemma adjustAccelerator_500:
  "sink (adjustAccelerator 500 (initial\<lparr>auxInput := (auxInput initial)(3 := 375)\<rparr>)) =
     [Joystick_setThrottle 500, Joystick_setAccelerator 0]"
  by (simp add: adjustAccelerator_def initial_def Let_def AUX_MIN_def mapFloat_375
      adjustedLogitCurve_500 float_to_int_500 setAccelerator_def emit_def
      ACCELERATOR_MAX_def ACCELERATOR_MIN_def)

text \<open>
  C4 as stated fails. The reading 375 of aux3 gives the blend factor 0.5. At the raw
  value 500 the blended value is not strictly between the raw value and the value of the
  full curve (blend factor 1), on either side: the three coincide, and the value handed
  to the joystick is the raw value itself.
\<close>

theorem accelerator_500_not_strictly_between:
  "mapFloat 375 0 1000 (- 0.1) 1.5 = 0.5 \<and>
   \<not> (500 < adjustedLogitCurve 500 curveAdjustment 0.5 \<and>
      adjustedLogitCurve 500 curveAdjustment 0.5 < adjustedLogitCurve 500 curveAdjustment 1) \<and>
   \<not> (adjustedLogitCurve 500 curveAdjustment 1 < adjustedLogitCurve 500 curveAdjustment 0.5 \<and>
      adjustedLogitCurve 500 curveAdjustment 0.5 < 500) \<and>
   sink (adjustAccelerator 500 (initial\<lparr>auxInput := (auxInput initial)(3 := 375)\<rparr>)) =
     [Joystick_setThrottle 500, Joystick_setAccelerator 0]"
  using mapFloat_375 adjustAccelerator_500 by (simp add: adjustedLogitCurve_500)

text \<open>
  C4 as amended. With the throttle at 500, the accelerator curve enabled and aux3 at 375
  (blend factor 0.5), the value handed to the joystick is 500: it lies between the raw
  value and the value of the full curve at 500, both of which are 500 too, and strictly
  inside the range from 0 to 1000.
\<close>

theorem accelerator_500_between:
  "(\<exists>out. sink (adjustAccelerator 500 (initial\<lparr>auxInput := (auxInput initial)(3 := 375)\<rparr>)) =
       [Joystick_setThrottle out, Joystick_setAccelerator 0] \<and>
     out = 500 \<and>
     min 500 (adjustedLogitCurve 500 curveAdjustment 1) \<le> real_of_int out \<and>
     real_of_int out \<le> max 500 (adjustedLogitCurve 500 curveAdjustment 1) \<and>
     0 < out \<and> out < 1000) \<and>
   adjustedLogitCurve 500 curveAdjustment 1 = 500 \<and>
   adjustedLogitCurve 500 curveAdjustment (mapFloat 375 0 1000 (- 0.1) 1.5) = 500"
  using adjustAccelerator_500 by (simp add: adjustedLogitCurve_500)

subsection \<open>The logit\<close>

lemma logit_clamp_bounds: "1 / 10000 \<le> logit_clamp x \<and> logit_clamp x \<le> 9999 / 10000"
  by (simp add: logit_clamp_def)

lemma logit_odds_bounds: "1 / 9999 \<le> logit_odds x \<and> logit_odds x \<le> 9999"
proof -
  have c: "1 / 10000 \<le> logit_clamp x" "logit_clamp x \<le> 9999 / 10000"
    using logit_clamp_bounds [of x] by simp_all
  have d: "0 < 1 - logit_clamp x"
    using c by simp
  have "1 - logit_clamp x \<le> 9999 * logit_clamp x"
    using c by simp
  then have lo: "1 / 9999 \<le> logit_clamp x / (1 - logit_clamp x)"
    using d by (simp add: pos_le_divide_eq)
  have "logit_clamp x \<le> 9999 * (1 - logit_clamp x)"
    using c by simp
  then have hi: "logit_clamp x / (1 - logit_clamp x) \<le> 9999"
    using d by (simp add: pos_divide_le_eq)
  show ?thesis
    using lo hi by (simp add: logit_odds_def)
qed

text \<open>
  C5 as stated fails: the argument of the logarithm is the quotient \<^verbatim>\<open>x / (1 - x)\<close> of the
  clamped \<^verbatim>\<open>x\<close>, and it is not inside (0,1) for an input above one half. At 0.9 it is 9.
  The clamp is into the closed interval: the input 0 is clamped to 0.0001 itself.
\<close>

theorem logit_odds_not_below_one:
  "\<not> (0 < logit_odds (9 / 10) \<and> logit_odds (9 / 10) < 1) \<and>
   \<not> (0.0001 < logit_clamp 0 \<and> logit_clamp 0 < 0.9999)"
  by (simp add: logit_odds_def logit_clamp_def)

text \<open>
  C5 as amended. For every real input, \<^verbatim>\<open>logit\<close> clamps the input into the closed interval
  from 0.0001 to 0.9999 before it computes the logarithm of \<^verbatim>\<open>x / (1 - x)\<close>. The clamped
  value is strictly inside (0,1), the divisor is not 0, and the argument of the logarithm
  is positive, between 1/9999 and 9999: no input leads to a division by zero or to a
  logarithm outside its domain, and the result is bounded.
\<close>

theorem logit_safe:
  "logit x = ln (logit_clamp x / (1 - logit_clamp x)) \<and>
   1 / 10000 \<le> logit_clamp x \<and> logit_clamp x \<le> 9999 / 10000 \<and>
   0 < logit_clamp x \<and> logit_clamp x < 1 \<and> 1 - logit_clamp x \<noteq> 0 \<and>
   0 < logit_odds x \<and> 1 / 9999 \<le> logit_odds x \<and> logit_odds x \<le> 9999 \<and>
   - ln 9999 \<le> logit x \<and> logit x \<le> ln 9999"
proof -
  have c: "1 / 10000 \<le> logit_clamp x" "logit_clamp x \<le> 9999 / 10000"
    using logit_clamp_bounds [of x] by simp_all
  have o: "1 / 9999 \<le> logit_odds x" "logit_odds x \<le> 9999"
    using logit_odds_bounds [of x] by simp_all
  have pos: "0 < logit_odds x"
    using o(1) by (rule less_le_trans [rotated]) simp
  have hi: "ln (logit_odds x) \<le> ln 9999"
    using pos o(2) by simp
  have "ln (1 / 9999) \<le> ln (logit_odds x)"
    using pos o(1) by (subst ln_le_cancel_iff) simp_all
  then have lo: "- ln 9999 \<le> ln (logit_odds x)"
    by (simp add: ln_div)
  show ?thesis
    using c o pos hi lo by (simp add: logit_def logit_odds_def)
qed

subsection \<open>The steering curve\<close>

lemma pow_pos_exponent: "0 \<le> x \<Longrightarrow> 0 < e \<Longrightarrow> pow x e = Some (x powr e)"
  by (simp add: pow_def)

lemma steeringShape_pos_exponent:
  "0 < e \<Longrightarrow> steeringShape x e = Some (if x < 0 then - (\<bar>x\<bar> powr e) else \<bar>x\<bar> powr e)"
  by (simp add: steeringShape_def pow_pos_exponent)

lemma steeringShape_mono:
  fixes e x y :: real
  assumes "0 < e" and "x \<le> y"
  shows "(if x < 0 then - (\<bar>x\<bar> powr e) else \<bar>x\<bar> powr e) \<le> (if y < 0 then - (\<bar>y\<bar> powr e) else \<bar>y\<bar> powr e)"
proof (cases "x < 0")
  case True
  show ?thesis
  proof (cases "y < 0")
    case y: True
    have "\<bar>y\<bar> powr e \<le> \<bar>x\<bar> powr e"
      by (rule powr_mono2) (use assms True y in simp_all)
    then show ?thesis using True y by simp
  next
    case y: False
    have "- (\<bar>x\<bar> powr e) \<le> 0" by simp
    also have "0 \<le> \<bar>y\<bar> powr e" by simp
    finally show ?thesis using True y by simp
  qed
next
  case False
  then have y: "\<not> y < 0" using assms by simp
  have "\<bar>x\<bar> powr e \<le> \<bar>y\<bar> powr e"
    by (rule powr_mono2) (use assms False y in simp_all)
  then show ?thesis using False y by simp
qed

lemma applySteeringExponent_pos_exponent:
  "0 < e \<Longrightarrow> applySteeringExponent v e =
     Some ((if v < 0 then - (\<bar>real_of_int v / 1000\<bar> powr e) else \<bar>real_of_int v / 1000\<bar> powr e) * 1000)"
  by (simp add: applySteeringExponent_def Let_def steeringShape_pos_exponent)

text \<open>
  The exponent has to be positive: \<^verbatim>\<open>pow(0, 0)\<close> is 1 in C, and with the exponent 0 the
  curve maps the raw value 0 to 1000.
\<close>

lemma applySteeringExponent_exponent_zero: "applySteeringExponent 0 0 = Some 1000"
  by (simp add: applySteeringExponent_def steeringShape_def pow_def)

text \<open>
  C7. For every raw value \<open>v\<close> and every positive exponent \<open>e\<close> (the valid exponents:
  the sketch asks for one above 1), the steering curve maps 0 to 0, is odd
  (\<open>curve (- v) = - curve v\<close>), keeps the sign of its input, and is monotonic: on the
  normalized input (every real, so the interval from -1 to 1 too) and on the raw values.
\<close>

theorem applySteeringExponent_odd_monotone:
  fixes e :: real and v w :: int and x y :: real
  assumes "0 < e"
  shows "applySteeringExponent 0 e = Some 0 \<and>
    (\<exists>c. applySteeringExponent v e = Some c \<and> applySteeringExponent (- v) e = Some (- c) \<and>
          sgn c = sgn (real_of_int v)) \<and>
    (x \<le> y \<longrightarrow> (\<exists>p q. steeringShape x e = Some p \<and> steeringShape y e = Some q \<and> p \<le> q)) \<and>
    (v \<le> w \<longrightarrow> (\<exists>p q. applySteeringExponent v e = Some p \<and> applySteeringExponent w e = Some q \<and> p \<le> q))"
proof (intro conjI impI)
  show "applySteeringExponent 0 e = Some 0"
    using assms by (simp add: applySteeringExponent_pos_exponent)
next
  let ?c = "(if v < 0 then - (\<bar>real_of_int v / 1000\<bar> powr e) else \<bar>real_of_int v / 1000\<bar> powr e) * 1000"
  have 1: "applySteeringExponent v e = Some ?c"
    using assms by (rule applySteeringExponent_pos_exponent)
  have 2: "applySteeringExponent (- v) e = Some (- ?c)"
  proof -
    consider "v < 0" | "v = 0" | "0 < v" by linarith
    then show ?thesis
    proof cases
      case 1
      then show ?thesis using assms by (simp add: applySteeringExponent_pos_exponent)
    next
      case 2
      then show ?thesis using assms by (simp add: applySteeringExponent_pos_exponent)
    next
      case 3
      then show ?thesis using assms by (simp add: applySteeringExponent_pos_exponent)
    qed
  qed
  have 3: "sgn ?c = sgn (real_of_int v)"
  proof -
    consider "v < 0" | "v = 0" | "0 < v" by linarith
    then show ?thesis
    proof cases
      case 1
      then have "0 < \<bar>real_of_int v / 1000\<bar> powr e" by simp
      then show ?thesis using 1 by simp
    next
      case 2
      then show ?thesis by simp
    next
      case 3
      then have "0 < \<bar>real_of_int v / 1000\<bar> powr e" by simp
      then show ?thesis using 3 by simp
    qed
  qed
  show "\<exists>c. applySteeringExponent v e = Some c \<and> applySteeringExponent (- v) e = Some (- c) \<and>
          sgn c = sgn (real_of_int v)"
    using 1 2 3 by blast
next
  assume "x \<le> y"
  then show "\<exists>p q. steeringShape x e = Some p \<and> steeringShape y e = Some q \<and> p \<le> q"
    using assms steeringShape_mono [of e x y] by (simp add: steeringShape_pos_exponent)
next
  assume "v \<le> w"
  then have "real_of_int v / 1000 \<le> real_of_int w / 1000" by simp
  from steeringShape_mono [OF assms this]
  show "\<exists>p q. applySteeringExponent v e = Some p \<and> applySteeringExponent w e = Some q \<and> p \<le> q"
    using assms by (simp add: applySteeringExponent_pos_exponent)
qed

theorem applySteeringExponent_odd_monotone_witness:
  "(0::real) < 2 \<and> applySteeringExponent 0 2 = Some 0 \<and>
    (\<exists>c. applySteeringExponent 500 2 = Some c \<and> applySteeringExponent (- 500) 2 = Some (- c) \<and>
          sgn c = sgn (real_of_int 500)) \<and>
    ((- 1 / 2 :: real) \<le> 1 / 4 \<and> (\<exists>p q. steeringShape (- 1 / 2) 2 = Some p \<and> steeringShape (1 / 4) 2 = Some q \<and> p \<le> q)) \<and>
    ((500::int) \<le> 1000 \<and> (\<exists>p q. applySteeringExponent 500 2 = Some p \<and> applySteeringExponent 1000 2 = Some q \<and> p \<le> q))"
  using applySteeringExponent_odd_monotone [of 2 500 "- 1 / 2" "1 / 4" 1000] by simp

section \<open>Properties of the pipeline\<close>

subsection \<open>The two axes of the accelerator\<close>

text \<open>
  C10. A call of \<^verbatim>\<open>setAccelerator\<close> clamps the value into the range from 0 to 1000 and
  writes both axes: with aux3 above 0 the throttle axis gets the clamped value and the
  accelerator axis 0, otherwise the accelerator axis gets the clamped value and the
  throttle axis 0. One of the two values written is always 0, and nothing else changes.
\<close>

theorem setAccelerator_axes:
  "setAccelerator v adjustment s =
     s\<lparr>sink := sink s @
        (if auxInput s 3 > 0
         then [Joystick_setThrottle (max 0 (min 1000 v)), Joystick_setAccelerator 0]
         else [Joystick_setThrottle 0, Joystick_setAccelerator (max 0 (min 1000 v))])\<rparr> \<and>
   (\<exists>t a. sink (setAccelerator v adjustment s) =
        sink s @ [Joystick_setThrottle t, Joystick_setAccelerator a] \<and> (t = 0 \<or> a = 0))"
  by (simp add: setAccelerator_def emit_def Let_def ACCELERATOR_MAX_def ACCELERATOR_MIN_def AUX_MIN_def)

subsection \<open>The bounds of the button array\<close>

lemma auxBody_in_bounds:
  "i < 3 \<Longrightarrow> \<exists>s'. auxBody i s = Inr s' \<and> auxInput s' = auxInput s"
  by (simp add: auxBody_def pressButton_def releaseButton_def buttonState_size_def Let_def emit_def)

lemma auxBody_3: "auxBody 3 s = Inl (IndexOutOfBounds 3)"
  by (simp add: auxBody_def pressButton_def releaseButton_def buttonState_size_def)

lemma auxLoop_3: "auxLoop 3 s = Inl (IndexOutOfBounds 3)"
  by (subst auxLoop.simps) (simp add: auxBody_3)

lemma auxLoop_step:
  assumes "i < 3" and "\<And>s'. auxLoop (Suc i) s' = Inl (IndexOutOfBounds 3)"
  shows "auxLoop i s = Inl (IndexOutOfBounds 3)"
proof -
  obtain s' where "auxBody i s = Inr s'" using auxBody_in_bounds [OF assms(1)] by blast
  then show ?thesis using assms by (subst auxLoop.simps) simp
qed

lemma auxLoop_0: "auxLoop 0 s = Inl (IndexOutOfBounds 3)"
proof -
  have 2: "\<And>s. auxLoop 2 s = Inl (IndexOutOfBounds 3)"
    using auxLoop_step [of 2] auxLoop_3 by (simp add: numeral_3_eq_3)
  have 1: "\<And>s. auxLoop 1 s = Inl (IndexOutOfBounds 3)"
    using auxLoop_step [of 1] 2 by (simp add: numeral_2_eq_2)
  show ?thesis using auxLoop_step [of 0] 1 by simp
qed

subsection \<open>The stages of the axes\<close>

lemma steeringExponent_pos: "0 < steeringExponent"
  by (simp add: steeringExponent_def)

lemma applySteeringExponent_steeringExponent:
  "\<exists>y. applySteeringExponent v steeringExponent = Some y"
  using applySteeringExponent_pos_exponent [OF steeringExponent_pos] by blast

lemma applySteeringExponent_rest: "applySteeringExponent 0 steeringExponent = Some 0"
  using applySteeringExponent_pos_exponent [OF steeringExponent_pos, of 0] by simp

lemma adjustSteering_unchanged: "lastSteeringOutput s = v \<Longrightarrow> adjustSteering v s = Inr s"
  by (simp add: adjustSteering_def)

lemma adjustSteering_changed:
  assumes "lastSteeringOutput s \<noteq> v"
  shows "\<exists>x. adjustSteering v s = Inr (setSteering x (s\<lparr>lastSteeringOutput := v\<rparr>))"
proof -
  obtain y where "applySteeringExponent v steeringExponent = Some y"
    using applySteeringExponent_steeringExponent by blast
  then show ?thesis
    using assms by (auto simp: adjustSteering_def Let_def)
qed

lemma float_to_int_0: "float_to_int 0 = 0"
  by (simp add: float_to_int_def)

lemma adjustSteering_rest:
  "adjustSteering 0 s =
     Inr (if lastSteeringOutput s = 0 then s else setSteering 0 (s\<lparr>lastSteeringOutput := 0\<rparr>))"
  by (simp add: adjustSteering_def Let_def applySteeringExponent_rest float_to_int_0)

lemma processSteering_unchanged:
  "lastSteeringInput s = - r \<Longrightarrow> processSteering r s = Inr (s\<lparr>steeringInput := - r\<rparr>)"
  by (simp add: processSteering_def Let_def)

lemma processSteering_inside:
  assumes "\<bar>r\<bar> \<le> 25" and "lastSteeringInput s \<noteq> - r"
  shows "processSteering r s = adjustSteering 0 (s\<lparr>steeringInput := - r, lastSteeringInput := - r\<rparr>)"
  using assms by (simp add: processSteering_def Let_def S_DEADZONE_def)

lemma processSteering_outside:
  assumes "25 < \<bar>r\<bar>" and "lastSteeringInput s \<noteq> - r"
  shows "processSteering r s = adjustSteering (- r) (s\<lparr>steeringInput := - r, lastSteeringInput := - r\<rparr>)"
  using assms by (simp add: processSteering_def Let_def S_DEADZONE_def)

lemma processThrottle_unchanged:
  "lastThrottleInput s = t \<Longrightarrow> processThrottle t s = s\<lparr>throttleInput := t\<rparr>"
  by (simp add: processThrottle_def Let_def)

lemma processThrottle_inside:
  assumes "\<bar>t\<bar> \<le> 25" and "lastThrottleInput s \<noteq> t"
  shows "processThrottle t s =
    adjustBrake 0 (adjustAccelerator 0 (s\<lparr>throttleInput := t, lastThrottleInput := t\<rparr>))"
  using assms by (simp add: processThrottle_def Let_def T_DEADZONE_def)

lemma processThrottle_accelerate:
  assumes "25 < t" and "lastThrottleInput s \<noteq> t"
  shows "processThrottle t s =
    adjustBrake 0 (adjustAccelerator t (s\<lparr>throttleInput := t, lastThrottleInput := t\<rparr>))"
  using assms by (simp add: processThrottle_def Let_def T_DEADZONE_def)

lemma processThrottle_brake:
  assumes "t < - 25" and "lastThrottleInput s \<noteq> t"
  shows "processThrottle t s =
    adjustBrake (- t) (adjustAccelerator 0 (s\<lparr>throttleInput := t, lastThrottleInput := t\<rparr>))"
  using assms by (simp add: processThrottle_def Let_def T_DEADZONE_def)

lemma adjustAccelerator_fields:
  "lastAcceleratorOutput (adjustAccelerator v s) = v \<and>
   lastBrakeOutput (adjustAccelerator v s) = lastBrakeOutput s \<and>
   lastThrottleInput (adjustAccelerator v s) = lastThrottleInput s \<and>
   throttleInput (adjustAccelerator v s) = throttleInput s \<and>
   auxInput (adjustAccelerator v s) = auxInput s \<and>
   acceleratorCurve (adjustAccelerator v s) = acceleratorCurve s \<and>
   brakeCurve (adjustAccelerator v s) = brakeCurve s"
  by (simp add: adjustAccelerator_def setAccelerator_def emit_def Let_def)

lemma adjustBrake_fields:
  "lastBrakeOutput (adjustBrake v s) = v \<and>
   lastAcceleratorOutput (adjustBrake v s) = lastAcceleratorOutput s \<and>
   lastThrottleInput (adjustBrake v s) = lastThrottleInput s \<and>
   throttleInput (adjustBrake v s) = throttleInput s \<and>
   auxInput (adjustBrake v s) = auxInput s \<and>
   acceleratorCurve (adjustBrake v s) = acceleratorCurve s \<and>
   brakeCurve (adjustBrake v s) = brakeCurve s"
  by (simp add: adjustBrake_def setBrake_def emit_def Let_def)



subsection \<open>The deadzone\<close>

text \<open>
  C3. For a steering reading and a throttle reading inside the deadzone (at most 25 in
  magnitude), whatever the curve toggles and the rest of the state: when the reading has
  not changed the stage returns at once, and otherwise the value handed downstream, to
  \<^verbatim>\<open>adjustSteering\<close>, or to \<^verbatim>\<open>adjustAccelerator\<close> and \<^verbatim>\<open>adjustBrake\<close>, is 0, and it is
  the value that the stage records as the last effective input of the axis.
\<close>

theorem deadzone_forces_rest:
  assumes "\<bar>r\<bar> \<le> 25" and "\<bar>t\<bar> \<le> 25"
  shows "processSteering r s =
      (if lastSteeringInput s = - r then Inr (s\<lparr>steeringInput := - r\<rparr>)
       else adjustSteering 0 (s\<lparr>steeringInput := - r, lastSteeringInput := - r\<rparr>)) \<and>
    processThrottle t s =
      (if lastThrottleInput s = t then s\<lparr>throttleInput := t\<rparr>
       else adjustBrake 0 (adjustAccelerator 0 (s\<lparr>throttleInput := t, lastThrottleInput := t\<rparr>))) \<and>
    (\<exists>s'. processSteering r s = Inr s' \<and>
       lastSteeringOutput s' = (if lastSteeringInput s = - r then lastSteeringOutput s else 0)) \<and>
    lastAcceleratorOutput (processThrottle t s) =
       (if lastThrottleInput s = t then lastAcceleratorOutput s else 0) \<and>
    lastBrakeOutput (processThrottle t s) =
       (if lastThrottleInput s = t then lastBrakeOutput s else 0)"
proof (intro conjI)
  show 1: "processSteering r s =
      (if lastSteeringInput s = - r then Inr (s\<lparr>steeringInput := - r\<rparr>)
       else adjustSteering 0 (s\<lparr>steeringInput := - r, lastSteeringInput := - r\<rparr>))"
    using assms(1) processSteering_unchanged [of s r] processSteering_inside [of r s] by simp
  show 2: "processThrottle t s =
      (if lastThrottleInput s = t then s\<lparr>throttleInput := t\<rparr>
       else adjustBrake 0 (adjustAccelerator 0 (s\<lparr>throttleInput := t, lastThrottleInput := t\<rparr>)))"
    using assms(2) processThrottle_unchanged [of s t] processThrottle_inside [of t s] by simp
  show "\<exists>s'. processSteering r s = Inr s' \<and>
       lastSteeringOutput s' = (if lastSteeringInput s = - r then lastSteeringOutput s else 0)"
    unfolding 1 by (simp add: adjustSteering_rest setSteering_def emit_def)
  show "lastAcceleratorOutput (processThrottle t s) =
       (if lastThrottleInput s = t then lastAcceleratorOutput s else 0)"
    unfolding 2 by (simp add: adjustAccelerator_fields adjustBrake_fields)
  show "lastBrakeOutput (processThrottle t s) =
       (if lastThrottleInput s = t then lastBrakeOutput s else 0)"
    unfolding 2 by (simp add: adjustAccelerator_fields adjustBrake_fields)
qed

theorem deadzone_forces_rest_witness:
  "\<bar>12::int\<bar> \<le> 25 \<and> \<bar>- 25::int\<bar> \<le> 25 \<and>
   processSteering 12 initial =
     adjustSteering 0 (initial\<lparr>steeringInput := - 12, lastSteeringInput := - 12\<rparr>) \<and>
   processThrottle (- 25) initial =
     adjustBrake 0 (adjustAccelerator 0 (initial\<lparr>throttleInput := - 25, lastThrottleInput := - 25\<rparr>))"
  using deadzone_forces_rest [of 12 "- 25" initial]
  by (simp add: initial_def)

subsection \<open>Bounds of the logarithm of 9999\<close>

text \<open>
  The logit curve at the input 0 is the logit of 0.0001, the negated logarithm of 9999.
  Its bounds come from bounds of the exponential, by repeated squaring.
\<close>

lemma exp_double_upper:
  fixes x a b :: real
  assumes "exp x \<le> a" and "a * a \<le> b"
  shows "exp (2 * x) \<le> b"
proof -
  have "0 \<le> a"
    using assms(1) exp_ge_zero [of x] by linarith
  have "exp (2 * x) = exp x * exp x"
    by (simp add: exp_double power2_eq_square)
  also have "\<dots> \<le> a * a"
    using assms(1) \<open>0 \<le> a\<close> by (intro mult_mono) simp_all
  finally show ?thesis
    using assms(2) by simp
qed

lemma exp_double_lower:
  fixes x a b :: real
  assumes "a \<le> exp x" and "0 \<le> a \<and> b \<le> a * a"
  shows "b \<le> exp (2 * x)"
proof -
  have "a * a \<le> exp x * exp x"
    using assms by (intro mult_mono) simp_all
  also have "\<dots> = exp (2 * x)"
    by (simp add: exp_double power2_eq_square)
  finally show ?thesis
    using assms(2) by simp
qed

lemma exp_add_upper:
  fixes x y a b c :: real
  assumes "exp x \<le> a" and "exp y \<le> b" and "a * b \<le> c"
  shows "exp (x + y) \<le> c"
proof -
  have "0 \<le> a"
    using assms(1) exp_ge_zero [of x] by linarith
  then have "exp x * exp y \<le> a * b"
    using assms(1,2) by (intro mult_mono) simp_all
  then show ?thesis
    using assms(3) by (simp add: exp_add)
qed

lemma exp_add_lower:
  fixes x y a b c :: real
  assumes "a \<le> exp x" and "b \<le> exp y" and "0 \<le> a \<and> 0 \<le> b \<and> c \<le> a * b"
  shows "c \<le> exp (x + y)"
proof -
  have "a * b \<le> exp x * exp y"
    using assms by (intro mult_mono) simp_all
  then show ?thesis
    using assms(3) by (simp add: exp_add)
qed

lemma exp_1_128_upper: "exp (1 / 128 :: real) \<le> 16513 / 16384"
  using exp_bound [of "1 / 128"] by (simp add: power2_eq_square)

lemma exp_1_128_lower: "(33025 / 32768 :: real) \<le> exp (1 / 128)"
  using exp_lower_Taylor_quadratic [of "1 / 128 :: real"] by (simp add: power2_eq_square)

lemma exp_1_64_upper: "exp (1 / 64 :: real) \<le> 101581 / 100000"
  using exp_double_upper [OF exp_1_128_upper, of "101581 / 100000"] by simp

lemma exp_1_64_lower: "(1015747 / 1000000 :: real) \<le> exp (1 / 64)"
  using exp_double_lower [OF exp_1_128_lower, of "1015747 / 1000000"] by simp

lemma exp_1_32_upper: "exp (1 / 32 :: real) \<le> 103187 / 100000"
  using exp_double_upper [OF exp_1_64_upper, of "103187 / 100000"] by simp

lemma exp_1_32_lower: "(1031741 / 1000000 :: real) \<le> exp (1 / 32)"
  using exp_double_lower [OF exp_1_64_lower, of "1031741 / 1000000"] by simp

lemma exp_1_16_upper: "exp (1 / 16 :: real) \<le> 266189 / 250000"
  using exp_double_upper [OF exp_1_32_upper, of "266189 / 250000"] by simp

lemma exp_1_16_lower: "(1064489 / 1000000 :: real) \<le> exp (1 / 16)"
  using exp_double_lower [OF exp_1_32_lower, of "1064489 / 1000000"] by simp

lemma exp_1_8_upper: "exp (1 / 8 :: real) \<le> 566853 / 500000"
  using exp_double_upper [OF exp_1_16_upper, of "566853 / 500000"] by simp

lemma exp_1_8_lower: "(70821 / 62500 :: real) \<le> exp (1 / 8)"
  using exp_double_lower [OF exp_1_16_lower, of "70821 / 62500"] by simp

lemma exp_1_4_upper: "exp (1 / 4 :: real) \<le> 128529 / 100000"
  using exp_double_upper [OF exp_1_8_upper, of "128529 / 100000"] by simp

lemma exp_1_4_lower: "(1283997 / 1000000 :: real) \<le> exp (1 / 4)"
  using exp_double_lower [OF exp_1_8_lower, of "1283997 / 1000000"] by simp

lemma exp_1_2_upper: "exp (1 / 2 :: real) \<le> 1651971 / 1000000"
  using exp_double_upper [OF exp_1_4_upper, of "1651971 / 1000000"] by simp

lemma exp_1_2_lower: "(206081 / 125000 :: real) \<le> exp (1 / 2)"
  using exp_double_lower [OF exp_1_4_lower, of "206081 / 125000"] by simp

lemma exp_1_upper: "exp (1 :: real) \<le> 272901 / 100000"
  using exp_double_upper [OF exp_1_2_upper, of "272901 / 100000"] by simp

lemma exp_1_lower: "(67951 / 25000 :: real) \<le> exp (1)"
  using exp_double_lower [OF exp_1_2_lower, of "67951 / 25000"] by simp

lemma exp_2_upper: "exp (2 :: real) \<le> 2979 / 400"
  using exp_double_upper [OF exp_1_upper, of "2979 / 400"] by simp

lemma exp_2_lower: "(73877 / 10000 :: real) \<le> exp (2)"
  using exp_double_lower [OF exp_1_lower, of "73877 / 10000"] by simp

lemma exp_4_upper: "exp (4 :: real) \<le> 554653 / 10000"
  using exp_double_upper [OF exp_2_upper, of "554653 / 10000"] by simp

lemma exp_4_lower: "(545781 / 10000 :: real) \<le> exp (4)"
  using exp_double_lower [OF exp_2_lower, of "545781 / 10000"] by simp

lemma exp_8_upper: "exp (8 :: real) \<le> 15382 / 5"
  using exp_double_upper [OF exp_4_upper, of "15382 / 5"] by simp

lemma exp_8_lower: "(74469 / 25 :: real) \<le> exp (8)"
  using exp_double_lower [OF exp_4_lower, of "74469 / 25"] by simp

lemma exp_9_upper: "exp (9 :: real) \<le> 41978 / 5"
  using exp_add_upper [OF exp_8_upper exp_1_upper, of "41978 / 5"] by simp

lemma exp_9_lower: "(80963 / 10 :: real) \<le> exp (9)"
  using exp_add_lower [OF exp_8_lower exp_1_lower, of "80963 / 10"] by simp

lemma exp_73_8_upper: "exp (73 / 8 :: real) \<le> 47591 / 5"
  using exp_add_upper [OF exp_9_upper exp_1_8_upper, of "47591 / 5"] by simp

lemma exp_73_8_lower: "(45871 / 5 :: real) \<le> exp (73 / 8)"
  using exp_add_lower [OF exp_9_lower exp_1_8_lower, of "45871 / 5"] by simp

lemma exp_147_16_lower: "(48829 / 5 :: real) \<le> exp (147 / 16)"
  using exp_add_lower [OF exp_73_8_lower exp_1_16_lower, of "48829 / 5"] by simp

lemma exp_295_32_lower: "(100757 / 10 :: real) \<le> exp (295 / 32)"
  using exp_add_lower [OF exp_147_16_lower exp_1_32_lower, of "100757 / 10"] by simp

lemma ln_9999_lower: "73 / 8 \<le> ln (9999 :: real)"
proof -
  have "exp (73 / 8 :: real) \<le> 9999"
    using exp_73_8_upper by simp
  then show ?thesis
    by (subst ln_ge_iff) simp_all
qed

lemma ln_9999_upper: "ln (9999 :: real) \<le> 295 / 32"
proof -
  have "ln (9999 :: real) \<le> ln (exp (295 / 32))"
    using exp_295_32_lower by (subst ln_le_cancel_iff) simp_all
  then show ?thesis by simp
qed

subsection \<open>The curve at rest\<close>

lemma logit_rest: "logit (1 / 10000) = - ln 9999"
proof -
  have "logit (1 / 10000) = ln (1 / 9999)"
    by (simp add: logit_def logit_odds_def logit_clamp_def)
  then show ?thesis
    by (simp add: ln_div)
qed

lemma adjustedLogitCurve_rest:
  "adjustedLogitCurve 0 curveAdjustment b = max 0 (min 1000 (b * ((6 - ln 9999) / 12 * 1000)))"
  by (simp add: adjustedLogitCurve_def Let_def logit_rest curveAdjustment_def)

text \<open>
  The value that \<^verbatim>\<open>adjustAccelerator\<close> and \<^verbatim>\<open>adjustBrake\<close> compute from the rest
  input 0 when the curve applies: it is 0 when aux3 is at least 62, and at least 1 when
  aux3 is from 1 to 61.
\<close>

lemma rest_slope_bounds:
  "(- 269 :: real) \<le> (6 - ln 9999) / 12 * 1000 \<and> (6 - ln 9999) / 12 * 1000 \<le> (- 260 :: real)"
  using ln_9999_lower ln_9999_upper by argo


lemma rest_output_positive:
  assumes "0 < a" and "a \<le> 61"
  shows "1 \<le> float_to_int (adjustedLogitCurve 0 curveAdjustment
      (mapFloat (real_of_int a) 0 1000 (- 0.1) 1.5) + 0.5)"
proof -
  define b where "b = mapFloat (real_of_int a) 0 1000 (- 0.1) 1.5"
  define K :: real where "K = (6 - ln 9999) / 12 * 1000"
  have b: "b \<le> - (3 / 1250)" "- (1 / 10) \<le> b"
    using assms by (simp_all add: b_def mapFloat_def)
  have K: "- 269 \<le> K" "K \<le> - 260" "K \<le> 0"
    using rest_slope_bounds by (simp_all add: K_def)
  have "78 / 125 \<le> - (3 / 1250) * K"
    using K(2) by simp
  also have "\<dots> \<le> b * K"
    using b(1) K(3) by (rule mult_right_mono_neg)
  finally have lo: "78 / 125 \<le> b * K" .
  have "b * K \<le> - (1 / 10) * K"
    using b(2) K(3) by (rule mult_right_mono_neg)
  also have "\<dots> \<le> 1000"
    using K(1) by simp
  finally have hi: "b * K \<le> 1000" .
  have X: "adjustedLogitCurve 0 curveAdjustment b = b * K"
    using lo hi by (simp add: adjustedLogitCurve_rest K_def)
  have "1 \<le> \<lfloor>b * K + 1 / 2\<rfloor>"
    using lo by (subst le_floor_iff) simp
  then show ?thesis
    unfolding b_def [symmetric] X float_to_int_def using lo by simp
qed






subsection \<open>Return to rest\<close>

lemma adjustSteering_fields:
  assumes "adjustSteering v s = Inr s'"
  shows "lastSteeringOutput s' = v \<and> lastSteeringInput s' = lastSteeringInput s \<and>
    steeringInput s' = steeringInput s"
proof (cases "lastSteeringOutput s = v")
  case True
  then show ?thesis
    using assms by (simp add: adjustSteering_unchanged)
next
  case False
  then show ?thesis
    using assms adjustSteering_changed [OF False]
    by (auto simp: setSteering_def emit_def)
qed

lemma adjustSteering_total: "\<exists>s'. adjustSteering v s = Inr s'"
  using adjustSteering_unchanged [of s v] adjustSteering_changed [of s v] by blast

lemma processSteering_total:
  "\<exists>s'. processSteering r s = Inr s' \<and> lastSteeringInput s' = - r"
proof (cases "lastSteeringInput s = - r")
  case True
  then show ?thesis
    by (simp add: processSteering_unchanged)
next
  case False
  let ?s0 = "s\<lparr>steeringInput := - r, lastSteeringInput := - r\<rparr>"
  let ?v = "if 25 < \<bar>r\<bar> then - r else 0"
  have eq: "processSteering r s = adjustSteering ?v ?s0"
    using False processSteering_inside [of r s] processSteering_outside [of r s] by simp
  obtain s' where s': "adjustSteering ?v ?s0 = Inr s'"
    using adjustSteering_total by blast
  have "lastSteeringInput s' = - r"
    using adjustSteering_fields [OF s'] by simp
  then show ?thesis
    using eq s' by simp
qed











subsection \<open>Change gating and edge triggering\<close>

lemma processThrottle_lastInput: "lastThrottleInput (processThrottle t s) = t"
proof (cases "lastThrottleInput s = t")
  case True
  then show ?thesis
    by (simp add: processThrottle_unchanged)
next
  case False
  consider "25 < t" | "t < - 25" | "\<bar>t\<bar> \<le> 25"
    by linarith
  then show ?thesis
  proof cases
    case 1
    then show ?thesis
      using False by (simp add: processThrottle_accelerate adjustAccelerator_fields adjustBrake_fields)
  next
    case 2
    then show ?thesis
      using False by (simp add: processThrottle_brake adjustAccelerator_fields adjustBrake_fields)
  next
    case 3
    then show ?thesis
      using False by (simp add: processThrottle_inside adjustAccelerator_fields adjustBrake_fields)
  qed
qed

lemma auxBody_latch:
  assumes "b < 3" and "auxBody b s = Inr s1"
  shows "buttonState s1 b = (\<not> 0 < auxInput s b)"
  using assms
  by (auto simp: auxBody_def pressButton_def releaseButton_def buttonState_size_def
      AUX_MIN_def Let_def emit_def split: if_splits)

lemma auxBody_held:
  assumes "b < 3" and "buttonState s b = (\<not> 0 < auxInput s b)"
  shows "auxBody b s = Inr s"
  using assms
  by (simp add: auxBody_def pressButton_def releaseButton_def buttonState_size_def AUX_MIN_def)

text \<open>
  C6. When a stage is given the reading that it was given last, it emits nothing: the
  steering stage and the throttle stage return at once, with no call to the joystick,
  whatever the other functions did to the rest of the state in between. A button that
  stays on the same side of its threshold (the raw value may change, and so may the mode
  channel) emits no second press or release.
\<close>

theorem repeated_reading_is_silent:
  "(processSteering r s = Inr s1 \<and> lastSteeringInput s2 = lastSteeringInput s1 \<longrightarrow>
      processSteering r s2 = Inr (s2\<lparr>steeringInput := - r\<rparr>) \<and>
      sink (s2\<lparr>steeringInput := - r\<rparr>) = sink s2) \<and>
   (lastThrottleInput u2 = lastThrottleInput (processThrottle t u) \<longrightarrow>
      processThrottle t u2 = u2\<lparr>throttleInput := t\<rparr> \<and>
      sink (u2\<lparr>throttleInput := t\<rparr>) = sink u2) \<and>
   (b < 3 \<and> auxBody b w = Inr w1 \<and> buttonState w2 b = buttonState w1 b \<and>
      (0 < auxInput w2 b \<longleftrightarrow> 0 < auxInput w b) \<longrightarrow> auxBody b w2 = Inr w2)"
proof (intro conjI impI)
  assume a: "processSteering r s = Inr s1 \<and> lastSteeringInput s2 = lastSteeringInput s1"
  have "lastSteeringInput s1 = - r"
    using a processSteering_total [of r s] by auto
  then show "processSteering r s2 = Inr (s2\<lparr>steeringInput := - r\<rparr>)"
    using a by (simp add: processSteering_unchanged)
next
  show "sink (s2\<lparr>steeringInput := - r\<rparr>) = sink s2"
    by simp
next
  assume "lastThrottleInput u2 = lastThrottleInput (processThrottle t u)"
  then show "processThrottle t u2 = u2\<lparr>throttleInput := t\<rparr>"
    by (simp add: processThrottle_lastInput processThrottle_unchanged)
next
  show "sink (u2\<lparr>throttleInput := t\<rparr>) = sink u2"
    by simp
next
  assume a: "b < 3 \<and> auxBody b w = Inr w1 \<and> buttonState w2 b = buttonState w1 b \<and>
      (0 < auxInput w2 b \<longleftrightarrow> 0 < auxInput w b)"
  then have "buttonState w1 b = (\<not> 0 < auxInput w b)"
    using auxBody_latch [of b w w1] by simp
  then show "auxBody b w2 = Inr w2"
    using a auxBody_held [of b w2] by simp
qed

theorem repeated_reading_is_silent_witness:
  "processSteering 12 initial = Inr (initial\<lparr>steeringInput := - 12, lastSteeringInput := - 12\<rparr>) \<and>
   processSteering 12 (initial\<lparr>steeringInput := - 12, lastSteeringInput := - 12\<rparr>) =
     Inr (initial\<lparr>steeringInput := - 12, lastSteeringInput := - 12\<rparr>) \<and>
   processThrottle 500 (processThrottle 500 initial) =
     (processThrottle 500 initial)\<lparr>throttleInput := 500\<rparr> \<and>
   (0::nat) < 3 \<and>
   auxBody 0 initial =
     Inr (initial\<lparr>buttonState := (buttonState initial)(0 := True),
            sink := [Keyboard_press KEY_DOWN_ARROW]\<rparr>) \<and>
   auxBody 0 (initial\<lparr>buttonState := (buttonState initial)(0 := True),
            sink := [Keyboard_press KEY_DOWN_ARROW]\<rparr>) =
     Inr (initial\<lparr>buttonState := (buttonState initial)(0 := True),
            sink := [Keyboard_press KEY_DOWN_ARROW]\<rparr>)"
proof -
  let ?s1 = "initial\<lparr>steeringInput := - 12, lastSteeringInput := - 12\<rparr>"
  let ?w1 = "initial\<lparr>buttonState := (buttonState initial)(0 := True),
            sink := [Keyboard_press KEY_DOWN_ARROW]\<rparr>"
  have 1: "processSteering 12 initial = Inr ?s1"
    by (simp add: processSteering_def Let_def S_DEADZONE_def initial_def adjustSteering_def)
  have 2: "auxBody 0 initial = Inr ?w1"
    by (simp add: auxBody_def pressButton_def buttonState_size_def AUX_MIN_def initial_def
        Let_def emit_def)
  show ?thesis
    using 1 2
      repeated_reading_is_silent [of 12 initial ?s1 ?s1 "processThrottle 500 initial" 500 initial
        0 initial ?w1 ?w1]
    by simp
qed

subsection \<open>A button in keyboard mode\<close>

text \<open>
  C2 as stated fails: the sketch presses a button while its channel reads 0 and releases
  it when the channel rises above 0. From the initial state, in keyboard mode, the cycle
  with aux0 at 0 sends the key press; the cycle in which aux0 rises to 800 sends the
  release of the key, and no key press.
\<close>

theorem button_rise_sends_no_key_press:
  "\<not> isl (auxBody 0 initial) \<and>
   sink (projr (auxBody 0 initial)) = [Keyboard_press KEY_DOWN_ARROW] \<and>
   \<not> isl (auxBody 0 ((projr (auxBody 0 initial))\<lparr>auxInput := (auxInput initial)(0 := 800)\<rparr>)) \<and>
   sink (projr (auxBody 0 ((projr (auxBody 0 initial))\<lparr>auxInput := (auxInput initial)(0 := 800)\<rparr>))) =
     sink (projr (auxBody 0 initial)) @ [Keyboard_release KEY_DOWN_ARROW] \<and>
   sink (projr (auxBody 0 ((projr (auxBody 0 initial))\<lparr>auxInput := (auxInput initial)(0 := 800)\<rparr>))) \<noteq>
     sink (projr (auxBody 0 initial)) @ [Keyboard_press KEY_DOWN_ARROW]"
proof -
  let ?w1 = "initial\<lparr>buttonState := (buttonState initial)(0 := True),
            sink := [Keyboard_press KEY_DOWN_ARROW]\<rparr>"
  have 1: "auxBody 0 initial = Inr ?w1"
    by (simp add: auxBody_def pressButton_def buttonState_size_def AUX_MIN_def initial_def
        Let_def emit_def)
  have 2: "auxBody 0 (?w1\<lparr>auxInput := (auxInput initial)(0 := 800)\<rparr>) =
      Inr (?w1\<lparr>auxInput := (auxInput initial)(0 := 800),
        buttonState := (buttonState initial)(0 := False),
        sink := [Keyboard_press KEY_DOWN_ARROW, Keyboard_release KEY_DOWN_ARROW]\<rparr>)"
    by (simp add: auxBody_def releaseButton_def buttonState_size_def AUX_MIN_def initial_def
        Let_def emit_def)
  show ?thesis
    unfolding 1 sum.sel 2 by simp
qed

text \<open>
  C2 as amended. A button channel (index 0, 1 or 2) that reads 0 latches the button as
  pressed. When the channel then rises above 0 (to 800, say) in a cycle in which the mode
  channel reads 0, the cycle emits one event for the button: the release of its key, and
  neither a key press nor a joystick button event.
\<close>

theorem button_rise_keyboard_release:
  assumes "b < 3" and "auxInput s b = 0" and "0 < x"
  shows "\<exists>s1 s2. auxBody b s = Inr s1 \<and> buttonState s1 b \<and>
    auxBody b (s1\<lparr>auxInput := (auxInput s1)(b := x, 3 := 0)\<rparr>) = Inr s2 \<and> \<not> buttonState s2 b \<and>
    sink s2 = sink s1 @
      [Keyboard_release
         (if b = 0 then KEY_DOWN_ARROW else if b = 1 then KEY_SPACE else KEY_LEFT_SHIFT)]"
proof -
  obtain s1 where s1: "auxBody b s = Inr s1"
    using auxBody_in_bounds [OF assms(1), of s] by blast
  have latched: "buttonState s1 b"
    using auxBody_latch [OF assms(1) s1] assms(2) by simp
  let ?s1' = "s1\<lparr>auxInput := (auxInput s1)(b := x, 3 := 0)\<rparr>"
  let ?k = "if b = 0 then KEY_DOWN_ARROW else if b = 1 then KEY_SPACE else KEY_LEFT_SHIFT"
  have "b \<noteq> 3"
    using assms(1) by simp
  then have raw: "auxInput ?s1' b = x"
    by simp
  have mode: "auxInput ?s1' 3 = 0"
    by simp
  have held: "buttonState ?s1' b"
    using latched by simp
  have "auxBody b ?s1' =
      Inr (emit (Keyboard_release ?k) (?s1'\<lparr>buttonState := (buttonState ?s1')(b := False)\<rparr>))"
    unfolding auxBody_def releaseButton_def raw
    using assms(1,3) held mode
    by (auto simp: buttonState_size_def AUX_MIN_def Let_def)
  then show ?thesis
    using s1 latched by (simp add: emit_def)
qed

theorem button_rise_keyboard_release_witness:
  "(1::nat) < 3 \<and> auxInput initial 1 = 0 \<and> (0::int) < 800 \<and>
   (\<exists>s1 s2. auxBody 1 initial = Inr s1 \<and> buttonState s1 1 \<and>
      auxBody 1 (s1\<lparr>auxInput := (auxInput s1)(1 := 800, 3 := 0)\<rparr>) = Inr s2 \<and>
      \<not> buttonState s2 1 \<and> sink s2 = sink s1 @ [Keyboard_release KEY_SPACE])"
proof -
  have h: "(1::nat) < 3" "auxInput initial 1 = 0" "(0::int) < 800"
    by (simp_all add: initial_def)
  show ?thesis
    using h button_rise_keyboard_release [OF h] by simp
qed

subsection \<open>The button array in a cycle\<close>

lemma processAuxChannels_fault: "processAuxChannels a0 a1 a2 a3 s = Inl (IndexOutOfBounds 3)"
  by (simp add: processAuxChannels_def Let_def auxLoop_0)

text \<open>
  C9 fails on the code. The array \<^verbatim>\<open>buttonState\<close> has 3 elements, and the loop of
  \<^verbatim>\<open>processAuxChannels\<close> runs to the index 3. Whatever the readings and the state, the
  iterations for 0, 1 and 2 stay in bounds and the iteration for 3 calls
  \<^verbatim>\<open>pressButton(3)\<close> or \<^verbatim>\<open>releaseButton(3)\<close>, which reads \<^verbatim>\<open>buttonState[3]\<close>: every call of
  \<^verbatim>\<open>processAuxChannels\<close>, and so every cycle, ends in this access.
\<close>

theorem processAuxChannels_out_of_bounds:
  "\<not> 3 < buttonState_size \<and>
   auxBody 3 s = Inl (IndexOutOfBounds 3) \<and>
   processAuxChannels a0 a1 a2 a3 s = Inl (IndexOutOfBounds 3) \<and>
   loop rd s = Inl (IndexOutOfBounds 3)"
proof -
  obtain s1 where "processSteering (steering_reading rd) s = Inr s1"
    using processSteering_total by blast
  then have "loop rd s = Inl (IndexOutOfBounds 3)"
    by (simp add: loop_def processAuxChannels_fault)
  then show ?thesis
    by (simp add: buttonState_size_def auxBody_3 processAuxChannels_fault)
qed

end
